theory Spec2Isabelle
  imports Main "HOL-Library.Word"
begin

section \<open>Strings and the lodash helpers of the filter\<close>

text \<open>
  The route \<^verbatim>\<open>src/api/routes/edition.js\<close> compares strings through lodash's
  \<^verbatim>\<open>_.toLower\<close> and \<^verbatim>\<open>_.upperFirst\<close>. A JavaScript string is a sequence of 16-bit
  code units. A literal of the source or of an example, all of whose characters
  are ASCII, is written \<open>ascii ''...''\<close>.
\<close>

type_synonym codeUnit = "16 word"

type_synonym jsString = "codeUnit list"

definition ascii :: "string \<Rightarrow> jsString" where
  "ascii s = map of_char s"

definition isAscii :: "jsString \<Rightarrow> bool" where
  "isAscii s = list_all (\<lambda>c. c < 128) s"

text \<open>The case mapping of the ASCII letters; every other code unit stays.\<close>

definition asciiLowerUnit :: "codeUnit \<Rightarrow> codeUnit" where
  "asciiLowerUnit c = (if 65 \<le> c \<and> c \<le> 90 then c + 32 else c)"

definition asciiUpperUnit :: "codeUnit \<Rightarrow> codeUnit" where
  "asciiUpperUnit c = (if 97 \<le> c \<and> c \<le> 122 then c - 32 else c)"

text \<open>
  \<^verbatim>\<open>String.prototype.toLowerCase\<close> and \<^verbatim>\<open>toUpperCase\<close> follow the Unicode case
  mapping, which is not a table of this repository: it works on code points, may
  change the length of a string (\<^verbatim>\<open>toUpperCase\<close> turns U+00DF into \<^verbatim>\<open>SS\<close>) and
  depends on the context of a letter. The same holds for the way lodash splits a
  string into symbols to find its first one. The three are therefore parameters
  of the model: a \<open>caseMapping\<close> is any triple of a lower-casing function, an
  upper-casing function and a function giving the number of code units of the
  first symbol of a string, of which only this much is fixed:
  \<^item> on a string of ASCII characters, lower-casing and upper-casing map the
    ASCII letters code unit by code unit;
  \<^item> lower-casing a string that is not empty gives a string that is not empty;
  \<^item> the first symbol of a non-empty string of ASCII characters is its first
    code unit.
  Every theorem below holds for every such triple, the mapping of the JavaScript
  engine among them.
\<close>

typedef caseMapping =
  "{m :: (jsString \<Rightarrow> jsString) \<times> (jsString \<Rightarrow> jsString) \<times> (jsString \<Rightarrow> nat).
      (\<forall>s. isAscii s \<longrightarrow> fst m s = map asciiLowerUnit s)
    \<and> (\<forall>s. isAscii s \<longrightarrow> fst (snd m) s = map asciiUpperUnit s)
    \<and> (\<forall>s. s \<noteq> [] \<longrightarrow> fst m s \<noteq> [])
    \<and> (\<forall>s. isAscii s \<and> s \<noteq> [] \<longrightarrow> snd (snd m) s = 1)}"
  by (rule exI[of _ "(map asciiLowerUnit, map asciiUpperUnit, \<lambda>s. 1)"]) simp

definition toLowerCase :: "caseMapping \<Rightarrow> jsString \<Rightarrow> jsString" where
  "toLowerCase cm = fst (Rep_caseMapping cm)"

definition toUpperCase :: "caseMapping \<Rightarrow> jsString \<Rightarrow> jsString" where
  "toUpperCase cm = fst (snd (Rep_caseMapping cm))"

definition firstSymbolLength :: "caseMapping \<Rightarrow> jsString \<Rightarrow> nat" where
  "firstSymbolLength cm = snd (snd (Rep_caseMapping cm))"

text \<open>
  \<^verbatim>\<open>_.toLower(value)\<close> is \<^verbatim>\<open>toString(value).toLowerCase()\<close>, and lodash's
  \<^verbatim>\<open>toString\<close> turns \<^verbatim>\<open>null\<close> and \<^verbatim>\<open>undefined\<close> into the empty string. The
  argument is a \<^typ>\<open>jsString option\<close>, \<^term>\<open>None\<close> for \<^verbatim>\<open>null\<close> or \<^verbatim>\<open>undefined\<close>.
\<close>

definition toLower :: "caseMapping \<Rightarrow> jsString option \<Rightarrow> jsString" where
  "toLower cm v = toLowerCase cm (case v of None \<Rightarrow> [] | Some s \<Rightarrow> s)"

text \<open>
  \<^verbatim>\<open>_.upperFirst(string)\<close> is \<^verbatim>\<open>chr.toUpperCase() + trailing\<close>, where \<^verbatim>\<open>chr\<close> is the
  first symbol of the string (\<^verbatim>\<open>charAt(0)\<close>, or the first element of lodash's
  \<^verbatim>\<open>stringToArray\<close> when the string has astral or combining characters) and
  \<^verbatim>\<open>trailing\<close> is the rest.
\<close>

definition upperFirst :: "caseMapping \<Rightarrow> jsString \<Rightarrow> jsString" where
  "upperFirst cm s =
     (let k = firstSymbolLength cm s;
          chr = take k s;
          trailing = drop k s
      in toUpperCase cm chr @ trailing)"

section \<open>Data model\<close>

text \<open>
  What an \<^verbatim>\<open>await\<close> or a property access of the handler can raise: a
  \<^verbatim>\<open>TypeError\<close> for a method called on \<^verbatim>\<open>undefined\<close>, and the rejection of a
  storage call.
\<close>

datatype error = TypeError | StorageUnavailable

text \<open>
  \<^verbatim>\<open>req.query\<close> as the handler reads it: \<^verbatim>\<open>bbid\<close> and \<^verbatim>\<open>modelType\<close> (the kind of
  the entity named in the query), both set by the validation middleware and
  only compared with \<^verbatim>\<open>===\<close> or passed on, and the two optional criteria, which
  are strings of the caller.
\<close>

record query =
  bbid :: string
  modelType :: string
  format :: "jsString option"
  language :: "jsString option"

text \<open>
  The value \<^verbatim>\<open>getEditionBasicInfo\<close> returns, with the fields the handler reads:
  \<^verbatim>\<open>editionFormat\<close> is a string or \<^verbatim>\<open>null\<close>; \<^verbatim>\<open>languages\<close> is an array of names,
  \<^term>\<open>None\<close> when the property is missing. The record is extensible: the other
  public fields (alias, dimensions, status, release date) live in its extension
  and are never read by the handler.
\<close>

record editionBasicInfo =
  bbid_info :: string
  editionFormat :: "jsString option"
  languages :: "jsString list option"

text \<open>
  The \<^verbatim>\<open>relationship\<close> of a record: the empty object \<^verbatim>\<open>{}\<close> the handler pushes,
  or the type id and name of a relationship edge (the properties the swagger
  block of the route lists).
\<close>

datatype relationship =
  EmptyObject
  | RelationshipEdge (relationshipTypeID: int) (relationshipType: string)

record 'e browseRecord =
  entity :: 'e
  relationship :: relationship

text \<open>
  The JSON of a fetched EditionGroup, with the one property the handler
  destructures; \<^verbatim>\<open>{}\<close> is the record whose \<^verbatim>\<open>editions\<close> is \<^term>\<open>None\<close>.
\<close>

record 'raw editionGroupJSON =
  editions :: "'raw list option"

text \<open>
  The two storage calls of the handler. \<^verbatim>\<open>new EditionGroup({bbid}).fetch({require:
  false, withRelated})\<close> resolves to the row's JSON or to \<^verbatim>\<open>null\<close> (\<^term>\<open>None\<close>);
  \<^verbatim>\<open>new Publisher({bbid}).editions({withRelated})\<close> resolves to the editions' JSON.
  Either may reject.
\<close>

record 'raw orm =
  EditionGroup_fetch :: "string \<Rightarrow> string list \<Rightarrow> error + 'raw editionGroupJSON option"
  Publisher_editions :: "string \<Rightarrow> string list \<Rightarrow> error + 'raw list"

text \<open>The response: \<^verbatim>\<open>res.status(200).send({bbid, editions})\<close>.\<close>

record 'e response =
  status :: nat
  bbid_body :: string
  editions_body :: "'e browseRecord list"

definition editionBasicRelations :: "string list" where
  "editionBasicRelations =
     [''defaultAlias.language'', ''languageSet.languages'', ''disambiguation'',
      ''editionFormat'', ''editionStatus'', ''releaseEventSet.releaseEvents'']"

section \<open>The filter predicate\<close>

text \<open>
  JavaScript truthiness of an optional query string: \<^verbatim>\<open>undefined\<close> and the
  empty string are falsy. This is the test \<^verbatim>\<open>if (req.query.format)\<close>.
\<close>

definition truthy :: "jsString option \<Rightarrow> bool" where
  "truthy v = (case v of None \<Rightarrow> False | Some s \<Rightarrow> s \<noteq> [])"

text \<open>
  \<^verbatim>\<open>array.includes(x)\<close>, on a property that may be missing: calling the method on
  \<^verbatim>\<open>undefined\<close> raises a \<^verbatim>\<open>TypeError\<close>.
\<close>

definition includes_js :: "'a list option \<Rightarrow> 'a \<Rightarrow> error + bool" where
  "includes_js arr x = (case arr of None \<Rightarrow> Inl TypeError | Some xs \<Rightarrow> Inr (x \<in> set xs))"

text \<open>
  \<^verbatim>\<open>relationshipsFilterMethod(relatedEntity)\<close>, lines 302 to 316, closed over
  \<^verbatim>\<open>req.query\<close>. The language test is evaluated before the conjunction, so it
  raises also when the format test has already failed.
\<close>

definition relationshipsFilterMethod ::
    "caseMapping \<Rightarrow> query \<Rightarrow> 'a editionBasicInfo_scheme \<Rightarrow> error + bool" where
  "relationshipsFilterMethod cm q relatedEntity =
     (if truthy (format q) then
        (let editionFormatMatched =
               (toLower cm (editionFormat relatedEntity) = toLower cm (format q))
         in if truthy (language q) then
              (case includes_js (languages relatedEntity)
                      (upperFirst cm (toLower cm (language q))) of
                 Inl err \<Rightarrow> Inl err
               | Inr editionLanguageMatched \<Rightarrow>
                   Inr (editionFormatMatched \<and> editionLanguageMatched))
            else Inr editionFormatMatched)
      else if truthy (language q) then
        includes_js (languages relatedEntity) (upperFirst cm (toLower cm (language q)))
      else Inr True)"

text \<open>
  \<^verbatim>\<open>array.filter(callback)\<close> with a callback that may raise: the elements are
  visited in order and the first exception ends the call.
\<close>

fun filter_js :: "('a \<Rightarrow> error + bool) \<Rightarrow> 'a list \<Rightarrow> error + 'a list" where
  "filter_js p [] = Inr []"
| "filter_js p (x # xs) =
     (case p x of
        Inl err \<Rightarrow> Inl err
      | Inr keep \<Rightarrow>
          (case filter_js p xs of
             Inl err \<Rightarrow> Inl err
           | Inr ys \<Rightarrow> Inr (if keep then x # ys else ys)))"

section \<open>The browse handler\<close>

text \<open>
  The relations the EditionGroup block loads: the constant \<^verbatim>\<open>relationships\<close> of
  line 327, each basic relation below \<^verbatim>\<open>editions\<close>.
\<close>

definition relationships :: "string list" where
  "relationships = map (\<lambda>rel. ''editions.'' @ rel) editionBasicRelations"

text \<open>
  The EditionGroup block, lines 323 to 340: fetch the group with its editions,
  take \<^verbatim>\<open>editions\<close> out of its JSON (out of \<^verbatim>\<open>{}\<close> when there is no row), project,
  filter, and push one record with the relationship \<^verbatim>\<open>{}\<close> for each edition kept.
\<close>

definition editionGroupBlock ::
    "caseMapping \<Rightarrow> ('raw \<Rightarrow> 'a editionBasicInfo_scheme) \<Rightarrow> 'raw orm \<Rightarrow> query \<Rightarrow>
     'a editionBasicInfo_scheme browseRecord list \<Rightarrow>
     error + 'a editionBasicInfo_scheme browseRecord list" where
  "editionGroupBlock cm getEditionBasicInfo db q editionRelationshipList =
     (case EditionGroup_fetch db (bbid q) relationships of
        Inl err \<Rightarrow> Inl err
      | Inr editionGroup \<Rightarrow>
          (let editionGroupJSON =
                 (case editionGroup of
                    Some json \<Rightarrow> json
                  | None \<Rightarrow> \<lparr>editions = None\<rparr>)
           in case editions editionGroupJSON of
                None \<Rightarrow> Inl TypeError
              | Some eds \<Rightarrow>
                  (case filter_js (relationshipsFilterMethod cm q)
                          (map getEditionBasicInfo eds) of
                     Inl err \<Rightarrow> Inl err
                   | Inr kept \<Rightarrow>
                       Inr (editionRelationshipList @
                            map (\<lambda>filteredEdition.
                                   \<lparr>entity = filteredEdition, relationship = EmptyObject\<rparr>)
                                kept))))"

text \<open>The Publisher block, lines 342 to 354.\<close>

definition publisherBlock ::
    "caseMapping \<Rightarrow> ('raw \<Rightarrow> 'a editionBasicInfo_scheme) \<Rightarrow> 'raw orm \<Rightarrow> query \<Rightarrow>
     'a editionBasicInfo_scheme browseRecord list \<Rightarrow>
     error + 'a editionBasicInfo_scheme browseRecord list" where
  "publisherBlock cm getEditionBasicInfo db q editionRelationshipList =
     (case Publisher_editions db (bbid q) editionBasicRelations of
        Inl err \<Rightarrow> Inl err
      | Inr editionsJSON \<Rightarrow>
          (case filter_js (relationshipsFilterMethod cm q)
                  (map getEditionBasicInfo editionsJSON) of
             Inl err \<Rightarrow> Inl err
           | Inr kept \<Rightarrow>
               Inr (editionRelationshipList @
                    map (\<lambda>filteredEdition.
                           \<lparr>entity = filteredEdition, relationship = EmptyObject\<rparr>)
                        kept)))"

text \<open>
  The handler of \<^verbatim>\<open>router.get('/')\<close>, lines 301 to 360. The helper
  \<^verbatim>\<open>utils.getBrowsedRelationships\<close> and the projector \<^verbatim>\<open>getEditionBasicInfo\<close> are
  imported from other modules and are parameters here, as is the case mapping of
  the engine; \<^verbatim>\<open>locals\<close> is \<^verbatim>\<open>res.locals\<close>, which the handler only passes on.
\<close>

definition router_get ::
    "caseMapping \<Rightarrow>
     ('raw orm \<Rightarrow> 'locals \<Rightarrow> string \<Rightarrow> ('raw \<Rightarrow> 'a editionBasicInfo_scheme) \<Rightarrow>
        string list \<Rightarrow> ('a editionBasicInfo_scheme \<Rightarrow> error + bool) \<Rightarrow>
        error + 'a editionBasicInfo_scheme browseRecord list) \<Rightarrow>
     ('raw \<Rightarrow> 'a editionBasicInfo_scheme) \<Rightarrow> 'raw orm \<Rightarrow> 'locals \<Rightarrow> query \<Rightarrow>
     error + 'a editionBasicInfo_scheme response" where
  "router_get cm getBrowsedRelationships getEditionBasicInfo db locals q =
     (case getBrowsedRelationships db locals ''Edition'' getEditionBasicInfo
             editionBasicRelations (relationshipsFilterMethod cm q) of
        Inl err \<Rightarrow> Inl err
      | Inr editionRelationshipList \<Rightarrow>
          (case (if modelType q = ''EditionGroup''
                 then editionGroupBlock cm getEditionBasicInfo db q editionRelationshipList
                 else Inr editionRelationshipList) of
             Inl err \<Rightarrow> Inl err
           | Inr afterEditionGroup \<Rightarrow>
               (case (if modelType q = ''Publisher''
                      then publisherBlock cm getEditionBasicInfo db q afterEditionGroup
                      else Inr afterEditionGroup) of
                  Inl err \<Rightarrow> Inl err
                | Inr afterPublisher \<Rightarrow>
                    Inr \<lparr>status = 200, bbid_body = bbid q,
                         editions_body = afterPublisher\<rparr>)))"

section \<open>The words of the specification\<close>

text \<open>
  Case-insensitive equality of two JavaScript strings: they have the same
  lower-case form.
\<close>

definition caseInsensitiveEqual :: "caseMapping \<Rightarrow> jsString \<Rightarrow> jsString \<Rightarrow> bool" where
  "caseInsensitiveEqual cm s t = (toLowerCase cm s = toLowerCase cm t)"

text \<open>
  The same for strings of ASCII characters, stated without any lower-casing: the
  two strings have the same length and at every position the same character, or
  an upper-case letter on one side and its lower-case letter on the other.
\<close>

definition sameLetter :: "codeUnit \<Rightarrow> codeUnit \<Rightarrow> bool" where
  "sameLetter a b =
     (a = b \<or> (65 \<le> a \<and> a \<le> 90 \<and> b = a + 32)
            \<or> (65 \<le> b \<and> b \<le> 90 \<and> a = b + 32))"

definition sameLetters :: "jsString \<Rightarrow> jsString \<Rightarrow> bool" where
  "sameLetters s t = list_all2 sameLetter s t"

text \<open>
  Modelled from the spec: the relationship set of the anchor, which the
  middleware \<^verbatim>\<open>loadEntityRelationshipsForBrowse\<close> (not among the sources) leaves in
  \<^verbatim>\<open>res.locals\<close>. By section 4.3 of the specification each edge comes with the
  kind and the raw record of its other endpoint and with its type id and name.
\<close>

record 'raw relationshipRow =
  otherKind :: string
  otherEntity :: 'raw
  edge :: relationship

text \<open>
  Modelled from the spec: \<^verbatim>\<open>utils.getBrowsedRelationships\<close>, the generic relationship
  resolver, is imported from \<^verbatim>\<open>../helpers/utils\<close>, which is not among the sources.
  By sections 4.3 and 4.6 of the specification it walks the anchor's relationship
  set, keeps every edge whose other endpoint is of the browsed kind, projects
  that endpoint, applies the predicate and drops the candidates that do not
  match, in the order of the relationship set.
\<close>

definition getBrowsedRelationships ::
    "'raw orm \<Rightarrow> 'raw relationshipRow list \<Rightarrow> string \<Rightarrow>
     ('raw \<Rightarrow> 'e) \<Rightarrow> string list \<Rightarrow> ('e \<Rightarrow> error + bool) \<Rightarrow>
     error + 'e browseRecord list" where
  "getBrowsedRelationships db locals browsedEntityType getEntityInfoMethod
       fetchRelated filterRelationshipMethod =
     (case filter_js (\<lambda>row. filterRelationshipMethod (getEntityInfoMethod (otherEntity row)))
             (filter (\<lambda>row. otherKind row = browsedEntityType) locals) of
        Inl err \<Rightarrow> Inl err
      | Inr kept \<Rightarrow>
          Inr (map (\<lambda>row. \<lparr>entity = getEntityInfoMethod (otherEntity row),
                             relationship = edge row\<rparr>) kept))"

text \<open>
  The candidates of the two special-case associations, named after sections 4.4
  and 4.6 of the specification and read off the storage calls of the handler: the
  editions in the JSON of the fetched EditionGroup, and the editions of the
  Publisher. They are what the call resolved to when the handler returned a
  response; where the call rejects or yields no editions the list is empty here,
  and the handler raises.
\<close>

definition containmentCandidates :: "'raw orm \<Rightarrow> query \<Rightarrow> 'raw list" where
  "containmentCandidates db q =
     (case EditionGroup_fetch db (bbid q) relationships of
        Inl err \<Rightarrow> []
      | Inr editionGroup \<Rightarrow>
          (case editionGroup of
             None \<Rightarrow> []
           | Some json \<Rightarrow> (case editions json of None \<Rightarrow> [] | Some eds \<Rightarrow> eds)))"

definition ownershipCandidates :: "'raw orm \<Rightarrow> query \<Rightarrow> 'raw list" where
  "ownershipCandidates db q =
     (case Publisher_editions db (bbid q) editionBasicRelations of
        Inl err \<Rightarrow> []
      | Inr editionsJSON \<Rightarrow> editionsJSON)"

definition specialCaseCandidates :: "'raw orm \<Rightarrow> query \<Rightarrow> 'raw list" where
  "specialCaseCandidates db q =
     (if modelType q = ''EditionGroup'' then containmentCandidates db q
      else if modelType q = ''Publisher'' then ownershipCandidates db q
      else [])"

section \<open>Sample data\<close>

text \<open>
  The scenario of section 8 of the specification, used to evaluate the model:
  the EditionGroup \<^verbatim>\<open>eg-1\<close> contains \<^verbatim>\<open>e1\<close> (Hardcover, English), \<^verbatim>\<open>e2\<close> (eBook,
  English) and \<^verbatim>\<open>e3\<close> (eBook, French); the publisher \<^verbatim>\<open>p-1\<close> published \<^verbatim>\<open>e2\<close>. A
  raw edition is its id, its format label and its language names, and the
  sample projector copies them.
\<close>

type_synonym rawEdition = "string \<times> jsString option \<times> jsString list"

definition sampleBasicInfo :: "rawEdition \<Rightarrow> editionBasicInfo" where
  "sampleBasicInfo raw =
     (case raw of (b, f, ls) \<Rightarrow> \<lparr>bbid_info = b, editionFormat = f, languages = Some ls\<rparr>)"

definition sampleOrm :: "rawEdition orm" where
  "sampleOrm =
     \<lparr>EditionGroup_fetch = (\<lambda>b withRelated.
          if b = ''eg-1''
          then Inr (Some \<lparr>editions = Some [(''e1'', Some (ascii ''Hardcover''), [ascii ''English'']),
                                          (''e2'', Some (ascii ''eBook''), [ascii ''English'']),
                                          (''e3'', Some (ascii ''eBook''), [ascii ''French''])]\<rparr>)
          else Inr None),
       Publisher_editions = (\<lambda>b withRelated.
          if b = ''p-1'' then Inr [(''e2'', Some (ascii ''eBook''), [ascii ''English''])] else Inr [])\<rparr>"

text \<open>
  Two relationship sets for the anchor: one with an edge to a Work and an edge to
  the edition \<^verbatim>\<open>e4\<close>, which is not a member of \<^verbatim>\<open>eg-1\<close>; one with an edge to \<^verbatim>\<open>e2\<close>,
  which is.
\<close>

definition sampleLocals :: "rawEdition relationshipRow list" where
  "sampleLocals =
     [\<lparr>otherKind = ''Work'', otherEntity = (''w1'', None, []),
       edge = RelationshipEdge 10 ''Contains''\<rparr>,
      \<lparr>otherKind = ''Edition'', otherEntity = (''e4'', Some (ascii ''Paperback''), [ascii ''English'']),
       edge = RelationshipEdge 4 ''Translation''\<rparr>]"

definition sampleLocalsMember :: "rawEdition relationshipRow list" where
  "sampleLocalsMember =
     [\<lparr>otherKind = ''Edition'', otherEntity = (''e2'', Some (ascii ''eBook''), [ascii ''English'']),
       edge = RelationshipEdge 4 ''Translation''\<rparr>]"

section \<open>Case mapping\<close>

lemma toLowerCase_ascii: "isAscii s \<Longrightarrow> toLowerCase cm s = map asciiLowerUnit s"
  using Rep_caseMapping[of cm] by (simp add: toLowerCase_def)

lemma toUpperCase_ascii: "isAscii s \<Longrightarrow> toUpperCase cm s = map asciiUpperUnit s"
  using Rep_caseMapping[of cm] by (simp add: toUpperCase_def)

lemma toLowerCase_nonempty: "s \<noteq> [] \<Longrightarrow> toLowerCase cm s \<noteq> []"
  using Rep_caseMapping[of cm] by (simp add: toLowerCase_def)

lemma firstSymbolLength_ascii:
  "isAscii s \<Longrightarrow> s \<noteq> [] \<Longrightarrow> firstSymbolLength cm s = 1"
  using Rep_caseMapping[of cm] by (simp add: firstSymbolLength_def)

lemma toLowerCase_Nil [simp]: "toLowerCase cm [] = []"
  by (simp add: toLowerCase_ascii isAscii_def)

lemma toLower_None [simp]: "toLower cm None = []"
  by (simp add: toLower_def)

lemma toLower_Some: "toLower cm (Some s) = toLowerCase cm s"
  by (simp add: toLower_def)

lemma toLower_ascii: "isAscii s \<Longrightarrow> toLower cm (Some s) = map asciiLowerUnit s"
  by (simp add: toLower_def toLowerCase_ascii)

lemma upperFirst_ascii:
  "isAscii s \<Longrightarrow>
   upperFirst cm s = (case s of [] \<Rightarrow> [] | c # cs \<Rightarrow> asciiUpperUnit c # cs)"
proof (cases s)
  case Nil
  then show ?thesis
    by (simp add: upperFirst_def toUpperCase_ascii isAscii_def)
next
  case (Cons c cs)
  assume "isAscii s"
  with Cons have k: "firstSymbolLength cm s = 1" and c: "isAscii [c]"
    by (simp_all add: firstSymbolLength_ascii isAscii_def)
  from k c Cons show ?thesis
    by (simp add: upperFirst_def toUpperCase_ascii)
qed

text \<open>On ASCII strings, having the same lower-case form is having the same letters.\<close>

lemma asciiLowerUnit_eq_iff: "(asciiLowerUnit a = asciiLowerUnit b) = sameLetter a b"
  unfolding asciiLowerUnit_def sameLetter_def
  by (simp split: if_splits) unat_arith

lemma map_asciiLowerUnit_eq_iff:
  "(map asciiLowerUnit s = map asciiLowerUnit t) = sameLetters s t"
  unfolding sameLetters_def
proof (induction s arbitrary: t)
  case Nil
  then show ?case by simp
next
  case (Cons a s)
  then show ?case by (cases t) (simp_all add: asciiLowerUnit_eq_iff)
qed

lemma caseInsensitiveEqual_ascii:
  "isAscii s \<Longrightarrow> isAscii t \<Longrightarrow> caseInsensitiveEqual cm s t = sameLetters s t"
  by (simp add: caseInsensitiveEqual_def toLowerCase_ascii map_asciiLowerUnit_eq_iff)

lemma toLower_eq_iff:
  "(toLower cm a = toLower cm (Some f)) =
     caseInsensitiveEqual cm (case a of None \<Rightarrow> [] | Some s \<Rightarrow> s) f"
  by (simp add: toLower_def caseInsensitiveEqual_def)

text \<open>Evaluating the literals of the examples.\<close>

lemma isAscii_Nil [simp]: "isAscii []"
  by (simp add: isAscii_def)

lemma isAscii_Cons [simp]: "isAscii (c # cs) = (c < 128 \<and> isAscii cs)"
  by (simp add: isAscii_def)

section \<open>Filtering with a predicate that may raise\<close>

lemma filter_js_Inr_iff:
  "(filter_js p xs = Inr ys) =
     ((\<forall>x \<in> set xs. \<exists>b. p x = Inr b) \<and> ys = filter (\<lambda>x. p x = Inr True) xs)"
proof (induction xs arbitrary: ys)
  case Nil
  then show ?case by auto
next
  case (Cons x xs)
  show ?case
  proof (cases "p x")
    case (Inl err)
    then show ?thesis by auto
  next
    case (Inr keep)
    then show ?thesis
      using Cons.IH by (cases "filter_js p xs") auto
  qed
qed

lemma filter_js_cong:
  "(\<And>x. x \<in> set xs \<Longrightarrow> p x = p' x) \<Longrightarrow> filter_js p xs = filter_js p' xs"
proof (induction xs)
  case Nil
  then show ?case by simp
next
  case (Cons a xs)
  then have "p a = p' a" and "filter_js p xs = filter_js p' xs"
    by simp_all
  then show ?case by (simp split: sum.splits)
qed

lemma filter_js_idem:
  "(case filter_js p xs of Inl err \<Rightarrow> Inl err | Inr ys \<Rightarrow> filter_js p ys) =
     filter_js p xs"
proof (cases "filter_js p xs")
  case (Inl err)
  then show ?thesis by simp
next
  case (Inr ys)
  then have all: "\<forall>x \<in> set xs. \<exists>b. p x = Inr b"
    and ys: "ys = filter (\<lambda>x. p x = Inr True) xs"
    by (simp_all add: filter_js_Inr_iff)
  have "filter_js p ys = Inr ys"
    unfolding filter_js_Inr_iff using all ys
    by (auto intro: filter_id_conv[THEN iffD2, symmetric])
  with Inr show ?thesis by simp
qed

section \<open>The predicate, case by case\<close>

lemma truthy_None [simp]: "\<not> truthy None"
  by (simp add: truthy_def)

lemma truthy_Some [simp]: "truthy (Some s) = (s \<noteq> [])"
  by (simp add: truthy_def)

lemma includes_js_Some [simp]: "includes_js (Some xs) x = Inr (x \<in> set xs)"
  by (simp add: includes_js_def)

lemma includes_js_None [simp]: "includes_js None x = Inl TypeError"
  by (simp add: includes_js_def)

lemma relationshipsFilterMethod_format_only:
  "truthy (format q) \<Longrightarrow> \<not> truthy (language q) \<Longrightarrow>
   relationshipsFilterMethod cm q e =
     Inr (toLower cm (editionFormat e) = toLower cm (format q))"
  by (simp add: relationshipsFilterMethod_def)

lemma relationshipsFilterMethod_language_only:
  "\<not> truthy (format q) \<Longrightarrow> language q = Some l \<Longrightarrow> l \<noteq> [] \<Longrightarrow>
   languages e = Some names \<Longrightarrow>
   relationshipsFilterMethod cm q e = Inr (upperFirst cm (toLowerCase cm l) \<in> set names)"
  by (simp add: relationshipsFilterMethod_def toLower_Some)

lemma relationshipsFilterMethod_both:
  "format q = Some f \<Longrightarrow> f \<noteq> [] \<Longrightarrow> language q = Some l \<Longrightarrow> l \<noteq> [] \<Longrightarrow>
   languages e = Some names \<Longrightarrow>
   relationshipsFilterMethod cm q e =
     Inr (toLower cm (editionFormat e) = toLower cm (Some f)
          \<and> upperFirst cm (toLowerCase cm l) \<in> set names)"
  by (simp add: relationshipsFilterMethod_def toLower_Some Let_def)

lemma relationshipsFilterMethod_no_criteria:
  "\<not> truthy (format q) \<Longrightarrow> \<not> truthy (language q) \<Longrightarrow>
   relationshipsFilterMethod cm q e = Inr True"
  by (simp add: relationshipsFilterMethod_def)

text \<open>
  A criterion given as the empty string is falsy, so the guards treat it like a
  criterion that is not given at all.
\<close>

lemma relationshipsFilterMethod_empty_criterion:
  "relationshipsFilterMethod cm (q\<lparr>format := Some []\<rparr>) e =
     relationshipsFilterMethod cm (q\<lparr>format := None\<rparr>) e"
  "relationshipsFilterMethod cm (q\<lparr>language := Some []\<rparr>) e =
     relationshipsFilterMethod cm (q\<lparr>language := None\<rparr>) e"
  by (simp_all add: relationshipsFilterMethod_def)

text \<open>
  Without a language list the predicate raises as soon as a language criterion is
  given, whatever the format test says.
\<close>

lemma relationshipsFilterMethod_raises_without_languages:
  "truthy (language q) \<Longrightarrow> languages e = None \<Longrightarrow>
   relationshipsFilterMethod cm q e = Inl TypeError"
  by (simp add: relationshipsFilterMethod_def Let_def)

text \<open>Two format criteria with the same lower-case form give the same predicate.\<close>

lemma relationshipsFilterMethod_format_cong:
  assumes "caseInsensitiveEqual cm f g" and "f \<noteq> []"
  shows "relationshipsFilterMethod cm (q\<lparr>format := Some f\<rparr>) e =
         relationshipsFilterMethod cm (q\<lparr>format := Some g\<rparr>) e"
proof -
  from assms have eq: "toLowerCase cm f = toLowerCase cm g"
    by (simp add: caseInsensitiveEqual_def)
  from assms(2) have "toLowerCase cm f \<noteq> []"
    by (rule toLowerCase_nonempty)
  with eq have "g \<noteq> []"
    by auto
  with assms eq show ?thesis
    by (simp add: relationshipsFilterMethod_def toLower_def Let_def)
qed

text \<open>The literals of the examples, evaluated.\<close>

lemmas literal_simps =
  ascii_def asciiLowerUnit_def asciiUpperUnit_def sameLetters_def sameLetter_def
  toLower_ascii toLowerCase_ascii upperFirst_ascii

lemmas run_simps =
  relationshipsFilterMethod_def Let_def literal_simps sampleBasicInfo_def

text \<open>
  Claim C1. A criterion is supplied when the handler's guard sees it, that is when
  it is present and not the empty string. With only a format supplied the
  predicate is the case-insensitive equality of the projection's format name (the
  empty string when the name is absent) and the criterion. With both supplied it
  is the conjunction of that format test and the language test, which is the
  membership of the normalized language criterion in the language list; with
  only a language it is the language test. A supplied language and a missing
  language list raise. With neither criterion the predicate accepts every
  candidate. On ASCII strings case-insensitive equality is equality letter by
  letter up to the case of each letter. Filtering any candidate list with the
  format \<^verbatim>\<open>EBOOK\<close> and with the format \<^verbatim>\<open>ebook\<close> gives the same outcome.
\<close>

theorem filter_predicate_cases:
  fixes e :: "'a editionBasicInfo_scheme"
  shows
  "(\<forall>f. format q = Some f \<and> f \<noteq> [] \<and> \<not> truthy (language q) \<longrightarrow>
        relationshipsFilterMethod cm q e =
          Inr (caseInsensitiveEqual cm
                 (case editionFormat e of None \<Rightarrow> [] | Some s \<Rightarrow> s) f))
   \<and> (\<forall>f l names.
        format q = Some f \<and> f \<noteq> [] \<and> language q = Some l \<and> l \<noteq> []
        \<and> languages e = Some names \<longrightarrow>
        relationshipsFilterMethod cm q e =
          Inr (caseInsensitiveEqual cm
                 (case editionFormat e of None \<Rightarrow> [] | Some s \<Rightarrow> s) f
               \<and> upperFirst cm (toLowerCase cm l) \<in> set names))
   \<and> (\<forall>l names.
        \<not> truthy (format q) \<and> language q = Some l \<and> l \<noteq> []
        \<and> languages e = Some names \<longrightarrow>
        relationshipsFilterMethod cm q e =
          Inr (upperFirst cm (toLowerCase cm l) \<in> set names))
   \<and> (truthy (language q) \<and> languages e = None \<longrightarrow>
        relationshipsFilterMethod cm q e = Inl TypeError)
   \<and> (\<not> truthy (format q) \<and> \<not> truthy (language q) \<longrightarrow>
        relationshipsFilterMethod cm q e = Inr True)
   \<and> (\<forall>s t. isAscii s \<and> isAscii t \<longrightarrow>
        caseInsensitiveEqual cm s t = sameLetters s t)
   \<and> filter_js (relationshipsFilterMethod cm (q\<lparr>format := Some (ascii ''EBOOK'')\<rparr>)) xs =
       filter_js (relationshipsFilterMethod cm (q\<lparr>format := Some (ascii ''ebook'')\<rparr>)) xs"
proof (intro conjI allI impI)
  fix f
  assume "format q = Some f \<and> f \<noteq> [] \<and> \<not> truthy (language q)"
  then show "relationshipsFilterMethod cm q e =
      Inr (caseInsensitiveEqual cm (case editionFormat e of None \<Rightarrow> [] | Some s \<Rightarrow> s) f)"
    by (simp add: relationshipsFilterMethod_format_only toLower_eq_iff)
next
  fix f l names
  assume "format q = Some f \<and> f \<noteq> [] \<and> language q = Some l \<and> l \<noteq> []
        \<and> languages e = Some names"
  then show "relationshipsFilterMethod cm q e =
          Inr (caseInsensitiveEqual cm
                 (case editionFormat e of None \<Rightarrow> [] | Some s \<Rightarrow> s) f
               \<and> upperFirst cm (toLowerCase cm l) \<in> set names)"
    by (simp add: relationshipsFilterMethod_both toLower_eq_iff)
next
  fix l names
  assume "\<not> truthy (format q) \<and> language q = Some l \<and> l \<noteq> []
        \<and> languages e = Some names"
  then show "relationshipsFilterMethod cm q e =
          Inr (upperFirst cm (toLowerCase cm l) \<in> set names)"
    by (simp add: relationshipsFilterMethod_language_only)
next
  assume "truthy (language q) \<and> languages e = None"
  then show "relationshipsFilterMethod cm q e = Inl TypeError"
    by (simp add: relationshipsFilterMethod_raises_without_languages)
next
  assume "\<not> truthy (format q) \<and> \<not> truthy (language q)"
  then show "relationshipsFilterMethod cm q e = Inr True"
    by (simp add: relationshipsFilterMethod_no_criteria)
next
  fix s t
  assume "isAscii s \<and> isAscii t"
  then show "caseInsensitiveEqual cm s t = sameLetters s t"
    by (simp add: caseInsensitiveEqual_ascii)
next
  have "caseInsensitiveEqual cm (ascii ''EBOOK'') (ascii ''ebook'')"
    by (simp add: caseInsensitiveEqual_def literal_simps)
  moreover have "ascii ''EBOOK'' \<noteq> []"
    by (simp add: ascii_def)
  ultimately show
    "filter_js (relationshipsFilterMethod cm (q\<lparr>format := Some (ascii ''EBOOK'')\<rparr>)) xs =
     filter_js (relationshipsFilterMethod cm (q\<lparr>format := Some (ascii ''ebook'')\<rparr>)) xs"
    by (intro filter_js_cong relationshipsFilterMethod_format_cong)
qed

theorem filter_predicate_cases_witness:
  "\<forall>cm.
     relationshipsFilterMethod cm
        \<lparr>bbid = ''eg-1'', modelType = ''EditionGroup'', format = Some (ascii ''EBOOK''),
          language = None\<rparr>
        \<lparr>bbid_info = ''e2'', editionFormat = Some (ascii ''eBook''),
          languages = Some [ascii ''English'']\<rparr>
       = Inr True
   \<and> relationshipsFilterMethod cm
        \<lparr>bbid = ''eg-1'', modelType = ''EditionGroup'', format = Some (ascii ''ebook''),
          language = Some (ascii ''english'')\<rparr>
        \<lparr>bbid_info = ''e2'', editionFormat = Some (ascii ''eBook''),
          languages = Some [ascii ''English'']\<rparr>
       = Inr True
   \<and> relationshipsFilterMethod cm
        \<lparr>bbid = ''eg-1'', modelType = ''EditionGroup'', format = Some (ascii ''ebook''),
          language = Some (ascii ''english'')\<rparr>
        \<lparr>bbid_info = ''e3'', editionFormat = Some (ascii ''eBook''),
          languages = Some [ascii ''French'']\<rparr>
       = Inr False
   \<and> relationshipsFilterMethod cm
        \<lparr>bbid = ''eg-1'', modelType = ''EditionGroup'', format = None,
          language = Some (ascii ''FRENCH'')\<rparr>
        \<lparr>bbid_info = ''e3'', editionFormat = Some (ascii ''eBook''),
          languages = Some [ascii ''French'']\<rparr>
       = Inr True
   \<and> relationshipsFilterMethod cm
        \<lparr>bbid = ''eg-1'', modelType = ''EditionGroup'', format = None,
          language = Some (ascii ''french'')\<rparr>
        \<lparr>bbid_info = ''e0'', editionFormat = None, languages = None\<rparr>
       = Inl TypeError
   \<and> relationshipsFilterMethod cm
        \<lparr>bbid = ''eg-1'', modelType = ''EditionGroup'', format = None, language = None\<rparr>
        \<lparr>bbid_info = ''e1'', editionFormat = Some (ascii ''Hardcover''),
          languages = Some [ascii ''English'']\<rparr>
       = Inr True"
proof
  fix cm
  let ?e0 = "\<lparr>bbid_info = ''e0'', editionFormat = None, languages = None\<rparr>"
  let ?e1 = "\<lparr>bbid_info = ''e1'', editionFormat = Some (ascii ''Hardcover''),
               languages = Some [ascii ''English'']\<rparr>"
  let ?e2 = "\<lparr>bbid_info = ''e2'', editionFormat = Some (ascii ''eBook''),
               languages = Some [ascii ''English'']\<rparr>"
  let ?e3 = "\<lparr>bbid_info = ''e3'', editionFormat = Some (ascii ''eBook''),
               languages = Some [ascii ''French'']\<rparr>"
  let ?q1 = "\<lparr>bbid = ''eg-1'', modelType = ''EditionGroup'', format = Some (ascii ''EBOOK''),
               language = None\<rparr>"
  let ?q2 = "\<lparr>bbid = ''eg-1'', modelType = ''EditionGroup'', format = Some (ascii ''ebook''),
               language = Some (ascii ''english'')\<rparr>"
  let ?q3 = "\<lparr>bbid = ''eg-1'', modelType = ''EditionGroup'', format = None, language = None\<rparr>"
  let ?q4 = "\<lparr>bbid = ''eg-1'', modelType = ''EditionGroup'', format = None,
               language = Some (ascii ''FRENCH'')\<rparr>"
  let ?q5 = "\<lparr>bbid = ''eg-1'', modelType = ''EditionGroup'', format = None,
               language = Some (ascii ''french'')\<rparr>"
  have a: "relationshipsFilterMethod cm ?q1 ?e2 = Inr True"
    using filter_predicate_cases[of ?q1 cm ?e2 "[]"]
    by (simp add: literal_simps)
  have b: "relationshipsFilterMethod cm ?q2 ?e2 = Inr True"
    using filter_predicate_cases[of ?q2 cm ?e2 "[]"]
    by (simp add: literal_simps)
  have c: "relationshipsFilterMethod cm ?q2 ?e3 = Inr False"
    using filter_predicate_cases[of ?q2 cm ?e3 "[]"]
    by (simp add: literal_simps)
  have d: "relationshipsFilterMethod cm ?q4 ?e3 = Inr True"
    using filter_predicate_cases[of ?q4 cm ?e3 "[]"]
    by (simp add: literal_simps)
  have e: "relationshipsFilterMethod cm ?q5 ?e0 = Inl TypeError"
    using filter_predicate_cases[of ?q5 cm ?e0 "[]"]
    by (simp add: literal_simps)
  have f: "relationshipsFilterMethod cm ?q3 ?e1 = Inr True"
    using filter_predicate_cases[of ?q3 cm ?e1 "[]"]
    by simp
  from a b c d e f show "relationshipsFilterMethod cm ?q1 ?e2 = Inr True
    \<and> relationshipsFilterMethod cm ?q2 ?e2 = Inr True
    \<and> relationshipsFilterMethod cm ?q2 ?e3 = Inr False
    \<and> relationshipsFilterMethod cm ?q4 ?e3 = Inr True
    \<and> relationshipsFilterMethod cm ?q5 ?e0 = Inl TypeError
    \<and> relationshipsFilterMethod cm ?q3 ?e1 = Inr True"
    by simp
qed

text \<open>
  Claim C6. The specification asks for a case-insensitive membership test. The
  code normalizes the criterion to \<^verbatim>\<open>upperFirst(toLower(language))\<close> and looks for
  exactly that string, so a stored name with a capital after its first letter is
  never found: the list holds \<^verbatim>\<open>Old English\<close>, the criterion is that very name,
  it is compared as \<^verbatim>\<open>Old english\<close>, and the candidate is rejected. The format
  test of the same function lower-cases both sides and accepts the same stored
  string for the criterion \<^verbatim>\<open>old english\<close>.
\<close>

theorem language_test_rejects_stored_name:
  "\<forall>cm.
     relationshipsFilterMethod cm
        \<lparr>bbid = ''w-1'', modelType = ''Work'', format = None,
          language = Some (ascii ''Old English'')\<rparr>
        \<lparr>bbid_info = ''e9'', editionFormat = Some (ascii ''Old English''),
          languages = Some [ascii ''Old English'']\<rparr>
       = Inr False
   \<and> ascii ''Old English'' \<in> set [ascii ''Old English'']
   \<and> caseInsensitiveEqual cm (ascii ''Old English'') (ascii ''Old English'')
   \<and> upperFirst cm (toLower cm (Some (ascii ''Old English''))) = ascii ''Old english''
   \<and> relationshipsFilterMethod cm
        \<lparr>bbid = ''w-1'', modelType = ''Work'', format = Some (ascii ''old english''),
          language = None\<rparr>
        \<lparr>bbid_info = ''e9'', editionFormat = Some (ascii ''Old English''),
          languages = Some [ascii ''Old English'']\<rparr>
       = Inr True"
  by (simp add: run_simps caseInsensitiveEqual_def)

text \<open>
  Claim C7. On a projection whose language list is present the predicate returns
  a boolean and does not raise, whatever the two criteria are.
\<close>

theorem filter_predicate_total:
  fixes e :: "'a editionBasicInfo_scheme"
  assumes "languages e \<noteq> None"
  shows "\<exists>b. relationshipsFilterMethod cm q e = Inr b"
proof -
  from assms obtain names where "languages e = Some names" by auto
  then show ?thesis
    by (auto simp: relationshipsFilterMethod_def Let_def)
qed

theorem filter_predicate_total_witness:
  "\<forall>cm.
     languages \<lparr>bbid_info = ''e1'', editionFormat = None, languages = Some []\<rparr> \<noteq> None
   \<and> (\<exists>b. relationshipsFilterMethod cm
        \<lparr>bbid = ''eg-1'', modelType = ''EditionGroup'', format = Some (ascii ''ebook''),
          language = Some (ascii ''english'')\<rparr>
        \<lparr>bbid_info = ''e1'', editionFormat = None, languages = Some []\<rparr> = Inr b)"
proof
  fix cm
  show "languages \<lparr>bbid_info = ''e1'', editionFormat = None, languages = Some []\<rparr> \<noteq> None
   \<and> (\<exists>b. relationshipsFilterMethod cm
        \<lparr>bbid = ''eg-1'', modelType = ''EditionGroup'', format = Some (ascii ''ebook''),
          language = Some (ascii ''english'')\<rparr>
        \<lparr>bbid_info = ''e1'', editionFormat = None, languages = Some []\<rparr> = Inr b)"
    using filter_predicate_total
      [of "\<lparr>bbid_info = ''e1'', editionFormat = None, languages = Some []\<rparr>" cm
          "\<lparr>bbid = ''eg-1'', modelType = ''EditionGroup'', format = Some (ascii ''ebook''),
            language = Some (ascii ''english'')\<rparr>"]
    by simp
qed

text \<open>
  Claim C8. Filtering a candidate list with the predicate of fixed criteria and
  filtering the outcome again gives the outcome of filtering once; when the first
  pass raises, so does the composition.
\<close>

theorem filtering_idempotent:
  "(case filter_js (relationshipsFilterMethod cm q) xs of
      Inl err \<Rightarrow> Inl err
    | Inr ys \<Rightarrow> filter_js (relationshipsFilterMethod cm q) ys) =
   filter_js (relationshipsFilterMethod cm q) xs"
  by (rule filter_js_idem)

theorem filtering_idempotent_witness:
  "\<forall>cm.
     filter_js (relationshipsFilterMethod cm
        \<lparr>bbid = ''eg-1'', modelType = ''EditionGroup'', format = Some (ascii ''ebook''),
          language = Some (ascii ''english'')\<rparr>)
       (map sampleBasicInfo
          [(''e1'', Some (ascii ''Hardcover''), [ascii ''English'']),
           (''e2'', Some (ascii ''eBook''), [ascii ''English'']),
           (''e3'', Some (ascii ''eBook''), [ascii ''French''])])
       = Inr [sampleBasicInfo (''e2'', Some (ascii ''eBook''), [ascii ''English''])]
   \<and> filter_js (relationshipsFilterMethod cm
        \<lparr>bbid = ''eg-1'', modelType = ''EditionGroup'', format = Some (ascii ''ebook''),
          language = Some (ascii ''english'')\<rparr>)
       [sampleBasicInfo (''e2'', Some (ascii ''eBook''), [ascii ''English''])]
       = Inr [sampleBasicInfo (''e2'', Some (ascii ''eBook''), [ascii ''English''])]"
proof
  fix cm
  let ?q = "\<lparr>bbid = ''eg-1'', modelType = ''EditionGroup'', format = Some (ascii ''ebook''),
        language = Some (ascii ''english'')\<rparr>"
  let ?xs = "map sampleBasicInfo
        [(''e1'', Some (ascii ''Hardcover''), [ascii ''English'']),
         (''e2'', Some (ascii ''eBook''), [ascii ''English'']),
         (''e3'', Some (ascii ''eBook''), [ascii ''French''])]"
  let ?ys = "[sampleBasicInfo (''e2'', Some (ascii ''eBook''), [ascii ''English''])]"
  have once: "filter_js (relationshipsFilterMethod cm ?q) ?xs = Inr ?ys"
    by (simp add: run_simps)
  have "(case filter_js (relationshipsFilterMethod cm ?q) ?xs of
      Inl err \<Rightarrow> Inl err
    | Inr ys \<Rightarrow> filter_js (relationshipsFilterMethod cm ?q) ys) =
   filter_js (relationshipsFilterMethod cm ?q) ?xs"
    by (rule filtering_idempotent)
  then have twice: "filter_js (relationshipsFilterMethod cm ?q) ?ys = Inr ?ys"
    unfolding once by simp
  from once twice
  show "filter_js (relationshipsFilterMethod cm ?q) ?xs = Inr ?ys
      \<and> filter_js (relationshipsFilterMethod cm ?q) ?ys = Inr ?ys"
    by (rule conjI)
qed

text \<open>
  Claim C10. With a non-empty format criterion, a candidate whose format name is
  absent is never accepted. The predicate returns false for it without raising
  whenever no language criterion is supplied or the candidate has its language
  list (the only source of an exception is a missing language list, see C7), and
  no list that comes out of the filter contains such a candidate.
\<close>

theorem absent_format_excluded:
  fixes e :: "'a editionBasicInfo_scheme"
  assumes "format q = Some f" and "f \<noteq> []" and "editionFormat e = None"
  shows
  "relationshipsFilterMethod cm q e \<noteq> Inr True
   \<and> (\<not> truthy (language q) \<or> languages e \<noteq> None \<longrightarrow>
        relationshipsFilterMethod cm q e = Inr False)
   \<and> (\<forall>ys. filter_js (relationshipsFilterMethod cm q) xs = Inr ys \<longrightarrow> e \<notin> set ys)"
proof -
  have "toLowerCase cm f \<noteq> []"
    using assms(2) by (rule toLowerCase_nonempty)
  then have neq: "toLower cm (editionFormat e) \<noteq> toLower cm (format q)"
    using assms by (simp add: toLower_Some)
  have no: "relationshipsFilterMethod cm q e \<noteq> Inr True"
    using assms neq
    by (auto simp: relationshipsFilterMethod_def Let_def split: sum.splits)
  have def: "relationshipsFilterMethod cm q e = Inr False"
    if "\<not> truthy (language q) \<or> languages e \<noteq> None"
    using that assms neq
    by (auto simp: relationshipsFilterMethod_def Let_def)
  have out: "e \<notin> set ys" if "filter_js (relationshipsFilterMethod cm q) xs = Inr ys" for ys
    using that no by (auto simp: filter_js_Inr_iff)
  from no def out show ?thesis by blast
qed

theorem absent_format_excluded_witness:
  "\<forall>cm.
     relationshipsFilterMethod cm
        \<lparr>bbid = ''eg-1'', modelType = ''EditionGroup'', format = Some (ascii ''ebook''),
          language = Some (ascii ''english'')\<rparr>
        \<lparr>bbid_info = ''e5'', editionFormat = None, languages = Some [ascii ''English'']\<rparr>
       = Inr False"
proof
  fix cm
  show "relationshipsFilterMethod cm
        \<lparr>bbid = ''eg-1'', modelType = ''EditionGroup'', format = Some (ascii ''ebook''),
          language = Some (ascii ''english'')\<rparr>
        \<lparr>bbid_info = ''e5'', editionFormat = None, languages = Some [ascii ''English'']\<rparr>
       = Inr False"
    using absent_format_excluded
      [of "\<lparr>bbid = ''eg-1'', modelType = ''EditionGroup'', format = Some (ascii ''ebook''),
            language = Some (ascii ''english'')\<rparr>"
          "ascii ''ebook''"
          "\<lparr>bbid_info = ''e5'', editionFormat = None, languages = Some [ascii ''English'']\<rparr>"
          cm "[]"]
    by (simp add: ascii_def)
qed

section \<open>The handler, when it returns a response\<close>

text \<open>When each block, and the handler, return normally.\<close>

lemma editionGroupBlock_Inr_iff:
  "(editionGroupBlock cm getInfo db q generic = Inr out) =
     (\<exists>json eds kept.
        EditionGroup_fetch db (bbid q) relationships = Inr (Some json)
        \<and> editions json = Some eds
        \<and> filter_js (relationshipsFilterMethod cm q) (map getInfo eds) = Inr kept
        \<and> out = generic @ map (\<lambda>e. \<lparr>entity = e, relationship = EmptyObject\<rparr>) kept)"
  unfolding editionGroupBlock_def Let_def
  by (auto split: sum.splits option.splits)

lemma publisherBlock_Inr_iff:
  "(publisherBlock cm getInfo db q generic = Inr out) =
     (\<exists>eds kept.
        Publisher_editions db (bbid q) editionBasicRelations = Inr eds
        \<and> filter_js (relationshipsFilterMethod cm q) (map getInfo eds) = Inr kept
        \<and> out = generic @ map (\<lambda>e. \<lparr>entity = e, relationship = EmptyObject\<rparr>) kept)"
  unfolding publisherBlock_def
  by (auto split: sum.splits)

lemma router_get_Inr_iff:
  "(router_get cm gbr getInfo db locals q = Inr res) =
     (\<exists>generic out.
        gbr db locals ''Edition'' getInfo editionBasicRelations (relationshipsFilterMethod cm q)
          = Inr generic
        \<and> (if modelType q = ''EditionGroup''
            then editionGroupBlock cm getInfo db q generic = Inr out
            else if modelType q = ''Publisher''
            then publisherBlock cm getInfo db q generic = Inr out
            else out = generic)
        \<and> res = \<lparr>status = 200, bbid_body = bbid q, editions_body = out\<rparr>)"
  unfolding router_get_def
  by (auto split: sum.splits)

text \<open>A block that returned has appended the filtered projections of its candidates.\<close>

lemma editionGroupBlock_Inr:
  assumes "editionGroupBlock cm getInfo db q generic = Inr out"
  shows "EditionGroup_fetch db (bbid q) relationships =
           Inr (Some \<lparr>editions = Some (containmentCandidates db q)\<rparr>)"
    and "\<forall>e \<in> set (map getInfo (containmentCandidates db q)).
           \<exists>b. relationshipsFilterMethod cm q e = Inr b"
    and "out = generic @ map (\<lambda>e. \<lparr>entity = e, relationship = EmptyObject\<rparr>)
           (filter (\<lambda>e. relationshipsFilterMethod cm q e = Inr True)
              (map getInfo (containmentCandidates db q)))"
proof -
  from assms obtain json eds kept where
    f: "EditionGroup_fetch db (bbid q) relationships = Inr (Some json)"
    and e: "editions json = Some eds"
    and k: "filter_js (relationshipsFilterMethod cm q) (map getInfo eds) = Inr kept"
    and o: "out = generic @ map (\<lambda>e. \<lparr>entity = e, relationship = EmptyObject\<rparr>) kept"
    unfolding editionGroupBlock_Inr_iff by blast
  from f e have c: "containmentCandidates db q = eds"
    by (simp add: containmentCandidates_def)
  from e have "json = \<lparr>editions = Some eds\<rparr>" by (cases json) simp
  with f c show "EditionGroup_fetch db (bbid q) relationships =
           Inr (Some \<lparr>editions = Some (containmentCandidates db q)\<rparr>)"
    by simp
  from k c show "\<forall>e \<in> set (map getInfo (containmentCandidates db q)).
           \<exists>b. relationshipsFilterMethod cm q e = Inr b"
    unfolding filter_js_Inr_iff by blast
  from k o c show "out = generic @ map (\<lambda>e. \<lparr>entity = e, relationship = EmptyObject\<rparr>)
           (filter (\<lambda>e. relationshipsFilterMethod cm q e = Inr True)
              (map getInfo (containmentCandidates db q)))"
    unfolding filter_js_Inr_iff by blast
qed

lemma publisherBlock_Inr:
  assumes "publisherBlock cm getInfo db q generic = Inr out"
  shows "Publisher_editions db (bbid q) editionBasicRelations =
           Inr (ownershipCandidates db q)"
    and "\<forall>e \<in> set (map getInfo (ownershipCandidates db q)).
           \<exists>b. relationshipsFilterMethod cm q e = Inr b"
    and "out = generic @ map (\<lambda>e. \<lparr>entity = e, relationship = EmptyObject\<rparr>)
           (filter (\<lambda>e. relationshipsFilterMethod cm q e = Inr True)
              (map getInfo (ownershipCandidates db q)))"
proof -
  from assms obtain eds kept where
    f: "Publisher_editions db (bbid q) editionBasicRelations = Inr eds"
    and k: "filter_js (relationshipsFilterMethod cm q) (map getInfo eds) = Inr kept"
    and o: "out = generic @ map (\<lambda>e. \<lparr>entity = e, relationship = EmptyObject\<rparr>) kept"
    unfolding publisherBlock_Inr_iff by blast
  from f have c: "ownershipCandidates db q = eds"
    by (simp add: ownershipCandidates_def)
  from f c show "Publisher_editions db (bbid q) editionBasicRelations =
           Inr (ownershipCandidates db q)"
    by simp
  from k c show "\<forall>e \<in> set (map getInfo (ownershipCandidates db q)).
           \<exists>b. relationshipsFilterMethod cm q e = Inr b"
    unfolding filter_js_Inr_iff by blast
  from k o c show "out = generic @ map (\<lambda>e. \<lparr>entity = e, relationship = EmptyObject\<rparr>)
           (filter (\<lambda>e. relationshipsFilterMethod cm q e = Inr True)
              (map getInfo (ownershipCandidates db q)))"
    unfolding filter_js_Inr_iff by blast
qed

text \<open>
  The body of a response: the records of the generic resolver, then one record
  with the relationship \<^verbatim>\<open>{}\<close> for each special-case candidate the predicate
  accepts.
\<close>

lemma router_get_Inr:
  assumes "router_get cm gbr getInfo db locals q = Inr res"
  shows "\<exists>generic.
    gbr db locals ''Edition'' getInfo editionBasicRelations (relationshipsFilterMethod cm q)
       = Inr generic
    \<and> res = \<lparr>status = 200, bbid_body = bbid q,
               editions_body =
                 generic @ map (\<lambda>e. \<lparr>entity = e, relationship = EmptyObject\<rparr>)
                   (filter (\<lambda>e. relationshipsFilterMethod cm q e = Inr True)
                      (map getInfo (specialCaseCandidates db q)))\<rparr>"
proof -
  from assms obtain generic out where
    g: "gbr db locals ''Edition'' getInfo editionBasicRelations (relationshipsFilterMethod cm q)
          = Inr generic"
    and out: "if modelType q = ''EditionGroup''
            then editionGroupBlock cm getInfo db q generic = Inr out
            else if modelType q = ''Publisher''
            then publisherBlock cm getInfo db q generic = Inr out
            else out = generic"
    and res: "res = \<lparr>status = 200, bbid_body = bbid q, editions_body = out\<rparr>"
    unfolding router_get_Inr_iff by blast
  have "out = generic @ map (\<lambda>e. \<lparr>entity = e, relationship = EmptyObject\<rparr>)
                   (filter (\<lambda>e. relationshipsFilterMethod cm q e = Inr True)
                      (map getInfo (specialCaseCandidates db q)))"
  proof (cases "modelType q = ''EditionGroup''")
    case True
    with out have "editionGroupBlock cm getInfo db q generic = Inr out" by simp
    from editionGroupBlock_Inr(3)[OF this] True show ?thesis
      by (simp add: specialCaseCandidates_def)
  next
    case notEG: False
    show ?thesis
    proof (cases "modelType q = ''Publisher''")
      case True
      with out notEG have "publisherBlock cm getInfo db q generic = Inr out" by simp
      from publisherBlock_Inr(3)[OF this] True notEG show ?thesis
        by (simp add: specialCaseCandidates_def)
    next
      case False
      with out notEG show ?thesis
        by (simp add: specialCaseCandidates_def)
    qed
  qed
  with g res show ?thesis by blast
qed

lemma router_get_editions_body:
  assumes "router_get cm gbr getInfo db locals q = Inr res"
    and "gbr db locals ''Edition'' getInfo editionBasicRelations (relationshipsFilterMethod cm q)
           = Inr generic"
  shows "editions_body res =
           generic @ map (\<lambda>e. \<lparr>entity = e, relationship = EmptyObject\<rparr>)
             (filter (\<lambda>e. relationshipsFilterMethod cm q e = Inr True)
                (map getInfo (specialCaseCandidates db q)))"
  using router_get_Inr[OF assms(1)] assms(2) by auto

lemma router_get_storage:
  assumes "router_get cm gbr getInfo db locals q = Inr res"
  shows "modelType q = ''EditionGroup'' \<Longrightarrow>
           EditionGroup_fetch db (bbid q) relationships =
             Inr (Some \<lparr>editions = Some (specialCaseCandidates db q)\<rparr>)"
    and "modelType q = ''Publisher'' \<Longrightarrow>
           Publisher_editions db (bbid q) editionBasicRelations =
             Inr (specialCaseCandidates db q)"
proof -
  from assms obtain generic out where
    out: "if modelType q = ''EditionGroup''
            then editionGroupBlock cm getInfo db q generic = Inr out
            else if modelType q = ''Publisher''
            then publisherBlock cm getInfo db q generic = Inr out
            else out = generic"
    unfolding router_get_Inr_iff by blast
  show "EditionGroup_fetch db (bbid q) relationships =
             Inr (Some \<lparr>editions = Some (specialCaseCandidates db q)\<rparr>)"
    if eg: "modelType q = ''EditionGroup''"
  proof -
    from out eg have "editionGroupBlock cm getInfo db q generic = Inr out" by simp
    from editionGroupBlock_Inr(1)[OF this] eg show ?thesis
      by (simp add: specialCaseCandidates_def)
  qed
  show "Publisher_editions db (bbid q) editionBasicRelations =
             Inr (specialCaseCandidates db q)"
    if pb: "modelType q = ''Publisher''"
  proof -
    from pb have ne: "modelType q \<noteq> ''EditionGroup''" by simp
    with out pb have "publisherBlock cm getInfo db q generic = Inr out" by simp
    from publisherBlock_Inr(1)[OF this] pb ne show ?thesis
      by (simp add: specialCaseCandidates_def)
  qed
qed

lemma count_list_filter:
  "count_list (filter P xs) x = (if P x then count_list xs x else 0)"
  by (induction xs) auto

lemma getBrowsedRelationships_Inr:
  assumes "getBrowsedRelationships db locals ty getInfo rels p = Inr generic"
  shows "generic =
     map (\<lambda>row. \<lparr>entity = getInfo (otherEntity row), relationship = edge row\<rparr>)
       (filter (\<lambda>row. otherKind row = ty \<and> p (getInfo (otherEntity row)) = Inr True) locals)"
  using assms unfolding getBrowsedRelationships_def
  by (auto split: sum.splits simp: filter_js_Inr_iff conj_commute)


lemma map_filter_projected:
  "map (\<lambda>e. \<lparr>entity = e, relationship = EmptyObject\<rparr>) (filter P (map getInfo raws)) =
   map (\<lambda>raw. \<lparr>entity = getInfo raw, relationship = EmptyObject\<rparr>)
     (filter (\<lambda>raw. P (getInfo raw)) raws)"
  by (induction raws) simp_all

text \<open>The sample store and relationship sets, evaluated.\<close>

lemmas handler_simps =
  getBrowsedRelationships_def sampleOrm_def sampleLocals_def sampleLocalsMember_def
  specialCaseCandidates_def containmentCandidates_def ownershipCandidates_def run_simps

section \<open>Claims about the handler\<close>

text \<open>
  Claim C2. The kind the handler branches on is \<^verbatim>\<open>req.query.modelType\<close>, the kind
  of the entity named in the query (the specification's \<^verbatim>\<open>targetKind\<close> of step 3).
  The generic resolver is called first for every request: when it rejects, so
  does the handler. When it returns a list, the handler goes on by the kind. For
  an EditionGroup whose fetch yields a row with its editions, and for a Publisher
  whose editions are loaded, it returns the generic list followed by one record
  for each candidate the filter keeps; for any other kind it returns the generic
  list. Conversely every response has that form: its records are the generic
  list followed by the records of the special-case candidates that pass the
  filter. Without criteria nothing is dropped, so the response has as many
  records as the generic list and the candidates together: four for one generic
  record and three contained editions.
\<close>

theorem candidate_resolution_additive:
  "(\<forall>err.
      gbr db locals ''Edition'' getInfo editionBasicRelations (relationshipsFilterMethod cm q)
        = Inl err \<longrightarrow>
      router_get cm gbr getInfo db locals q = Inl err)
   \<and> (\<forall>generic json eds kept.
        gbr db locals ''Edition'' getInfo editionBasicRelations (relationshipsFilterMethod cm q)
          = Inr generic
        \<and> modelType q = ''EditionGroup''
        \<and> EditionGroup_fetch db (bbid q) relationships = Inr (Some json)
        \<and> editions json = Some eds
        \<and> filter_js (relationshipsFilterMethod cm q) (map getInfo eds) = Inr kept \<longrightarrow>
        router_get cm gbr getInfo db locals q =
          Inr \<lparr>status = 200, bbid_body = bbid q,
               editions_body =
                 generic @ map (\<lambda>e. \<lparr>entity = e, relationship = EmptyObject\<rparr>) kept\<rparr>)
   \<and> (\<forall>generic eds kept.
        gbr db locals ''Edition'' getInfo editionBasicRelations (relationshipsFilterMethod cm q)
          = Inr generic
        \<and> modelType q = ''Publisher''
        \<and> Publisher_editions db (bbid q) editionBasicRelations = Inr eds
        \<and> filter_js (relationshipsFilterMethod cm q) (map getInfo eds) = Inr kept \<longrightarrow>
        router_get cm gbr getInfo db locals q =
          Inr \<lparr>status = 200, bbid_body = bbid q,
               editions_body =
                 generic @ map (\<lambda>e. \<lparr>entity = e, relationship = EmptyObject\<rparr>) kept\<rparr>)
   \<and> (\<forall>generic.
        gbr db locals ''Edition'' getInfo editionBasicRelations (relationshipsFilterMethod cm q)
          = Inr generic
        \<and> modelType q \<noteq> ''EditionGroup'' \<and> modelType q \<noteq> ''Publisher'' \<longrightarrow>
        router_get cm gbr getInfo db locals q =
          Inr \<lparr>status = 200, bbid_body = bbid q, editions_body = generic\<rparr>)
   \<and> (router_get cm gbr getInfo db locals q = Inr res \<longrightarrow>
        (\<exists>generic.
           gbr db locals ''Edition'' getInfo editionBasicRelations
             (relationshipsFilterMethod cm q) = Inr generic
         \<and> editions_body res =
             generic @ map (\<lambda>e. \<lparr>entity = e, relationship = EmptyObject\<rparr>)
               (filter (\<lambda>e. relationshipsFilterMethod cm q e = Inr True)
                  (map getInfo (specialCaseCandidates db q)))
         \<and> (modelType q = ''EditionGroup'' \<longrightarrow>
              EditionGroup_fetch db (bbid q) relationships =
                Inr (Some \<lparr>editions = Some (specialCaseCandidates db q)\<rparr>))
         \<and> (modelType q = ''Publisher'' \<longrightarrow>
              Publisher_editions db (bbid q) editionBasicRelations =
                Inr (specialCaseCandidates db q))
         \<and> (modelType q \<noteq> ''EditionGroup'' \<and> modelType q \<noteq> ''Publisher'' \<longrightarrow>
              editions_body res = generic)
         \<and> (\<not> truthy (format q) \<and> \<not> truthy (language q) \<longrightarrow>
              length (editions_body res) =
                length generic + length (specialCaseCandidates db q))))"
proof (intro conjI allI impI)
  fix err
  assume "gbr db locals ''Edition'' getInfo editionBasicRelations
            (relationshipsFilterMethod cm q) = Inl err"
  then show "router_get cm gbr getInfo db locals q = Inl err"
    by (simp add: router_get_def)
next
  fix generic json eds kept
  assume "gbr db locals ''Edition'' getInfo editionBasicRelations
            (relationshipsFilterMethod cm q) = Inr generic
        \<and> modelType q = ''EditionGroup''
        \<and> EditionGroup_fetch db (bbid q) relationships = Inr (Some json)
        \<and> editions json = Some eds
        \<and> filter_js (relationshipsFilterMethod cm q) (map getInfo eds) = Inr kept"
  then show "router_get cm gbr getInfo db locals q =
          Inr \<lparr>status = 200, bbid_body = bbid q,
               editions_body =
                 generic @ map (\<lambda>e. \<lparr>entity = e, relationship = EmptyObject\<rparr>) kept\<rparr>"
    by (simp add: router_get_def editionGroupBlock_def)
next
  fix generic eds kept
  assume "gbr db locals ''Edition'' getInfo editionBasicRelations
            (relationshipsFilterMethod cm q) = Inr generic
        \<and> modelType q = ''Publisher''
        \<and> Publisher_editions db (bbid q) editionBasicRelations = Inr eds
        \<and> filter_js (relationshipsFilterMethod cm q) (map getInfo eds) = Inr kept"
  then show "router_get cm gbr getInfo db locals q =
          Inr \<lparr>status = 200, bbid_body = bbid q,
               editions_body =
                 generic @ map (\<lambda>e. \<lparr>entity = e, relationship = EmptyObject\<rparr>) kept\<rparr>"
    by (simp add: router_get_def publisherBlock_def)
next
  fix generic
  assume "gbr db locals ''Edition'' getInfo editionBasicRelations
            (relationshipsFilterMethod cm q) = Inr generic
        \<and> modelType q \<noteq> ''EditionGroup'' \<and> modelType q \<noteq> ''Publisher''"
  then show "router_get cm gbr getInfo db locals q =
          Inr \<lparr>status = 200, bbid_body = bbid q, editions_body = generic\<rparr>"
    by (simp add: router_get_def)
next
  assume run: "router_get cm gbr getInfo db locals q = Inr res"
  from router_get_Inr[OF run] obtain generic where
    g: "gbr db locals ''Edition'' getInfo editionBasicRelations
          (relationshipsFilterMethod cm q) = Inr generic"
    by blast
  note body = router_get_editions_body[of cm gbr getInfo db locals q res generic, OF run g]
  have other: "editions_body res = generic"
    if "modelType q \<noteq> ''EditionGroup'' \<and> modelType q \<noteq> ''Publisher''"
    using that body by (simp add: specialCaseCandidates_def)
  have len: "length (editions_body res) = length generic + length (specialCaseCandidates db q)"
    if "\<not> truthy (format q) \<and> \<not> truthy (language q)"
    using that body by (simp add: relationshipsFilterMethod_no_criteria)
  from g body router_get_storage[OF run] other len
  show "\<exists>generic.
           gbr db locals ''Edition'' getInfo editionBasicRelations
             (relationshipsFilterMethod cm q) = Inr generic
         \<and> editions_body res =
             generic @ map (\<lambda>e. \<lparr>entity = e, relationship = EmptyObject\<rparr>)
               (filter (\<lambda>e. relationshipsFilterMethod cm q e = Inr True)
                  (map getInfo (specialCaseCandidates db q)))
         \<and> (modelType q = ''EditionGroup'' \<longrightarrow>
              EditionGroup_fetch db (bbid q) relationships =
                Inr (Some \<lparr>editions = Some (specialCaseCandidates db q)\<rparr>))
         \<and> (modelType q = ''Publisher'' \<longrightarrow>
              Publisher_editions db (bbid q) editionBasicRelations =
                Inr (specialCaseCandidates db q))
         \<and> (modelType q \<noteq> ''EditionGroup'' \<and> modelType q \<noteq> ''Publisher'' \<longrightarrow>
              editions_body res = generic)
         \<and> (\<not> truthy (format q) \<and> \<not> truthy (language q) \<longrightarrow>
              length (editions_body res) =
                length generic + length (specialCaseCandidates db q))"
    by blast
qed

theorem candidate_resolution_additive_witness:
  "\<forall>cm.
     router_get cm getBrowsedRelationships sampleBasicInfo sampleOrm sampleLocals
        \<lparr>bbid = ''eg-1'', modelType = ''EditionGroup'', format = None, language = None\<rparr>
       = Inr \<lparr>status = 200, bbid_body = ''eg-1'',
              editions_body =
                [\<lparr>entity = sampleBasicInfo (''e4'', Some (ascii ''Paperback''), [ascii ''English'']),
                  relationship = RelationshipEdge 4 ''Translation''\<rparr>,
                 \<lparr>entity = sampleBasicInfo (''e1'', Some (ascii ''Hardcover''), [ascii ''English'']), relationship = EmptyObject\<rparr>,
                 \<lparr>entity = sampleBasicInfo (''e2'', Some (ascii ''eBook''), [ascii ''English'']), relationship = EmptyObject\<rparr>,
                 \<lparr>entity = sampleBasicInfo (''e3'', Some (ascii ''eBook''), [ascii ''French'']), relationship = EmptyObject\<rparr>]\<rparr>
   \<and> router_get cm getBrowsedRelationships sampleBasicInfo sampleOrm sampleLocals
        \<lparr>bbid = ''p-1'', modelType = ''Publisher'', format = Some (ascii ''EBOOK''),
          language = None\<rparr>
       = Inr \<lparr>status = 200, bbid_body = ''p-1'',
              editions_body =
                [\<lparr>entity = sampleBasicInfo (''e2'', Some (ascii ''eBook''), [ascii ''English'']), relationship = EmptyObject\<rparr>]\<rparr>
   \<and> router_get cm getBrowsedRelationships sampleBasicInfo sampleOrm sampleLocals
        \<lparr>bbid = ''w-1'', modelType = ''Work'', format = None, language = None\<rparr>
       = Inr \<lparr>status = 200, bbid_body = ''w-1'',
              editions_body =
                [\<lparr>entity = sampleBasicInfo (''e4'', Some (ascii ''Paperback''), [ascii ''English'']),
                  relationship = RelationshipEdge 4 ''Translation''\<rparr>]\<rparr>
   \<and> length (specialCaseCandidates sampleOrm
        \<lparr>bbid = ''eg-1'', modelType = ''EditionGroup'', format = None, language = None\<rparr>) = 3
   \<and> length (editions_body
        \<lparr>status = 200, bbid_body = ''eg-1'',
              editions_body =
                [\<lparr>entity = sampleBasicInfo (''e4'', Some (ascii ''Paperback''), [ascii ''English'']),
                  relationship = RelationshipEdge 4 ''Translation''\<rparr>,
                 \<lparr>entity = sampleBasicInfo (''e1'', Some (ascii ''Hardcover''), [ascii ''English'']), relationship = EmptyObject\<rparr>,
                 \<lparr>entity = sampleBasicInfo (''e2'', Some (ascii ''eBook''), [ascii ''English'']), relationship = EmptyObject\<rparr>,
                 \<lparr>entity = sampleBasicInfo (''e3'', Some (ascii ''eBook''), [ascii ''French'']), relationship = EmptyObject\<rparr>]\<rparr>) = 4"
proof
  fix cm
  let ?re = "\<lparr>status = 200, bbid_body = ''eg-1'',
              editions_body =
                [\<lparr>entity = sampleBasicInfo (''e4'', Some (ascii ''Paperback''), [ascii ''English'']),
                  relationship = RelationshipEdge 4 ''Translation''\<rparr>,
                 \<lparr>entity = sampleBasicInfo (''e1'', Some (ascii ''Hardcover''), [ascii ''English'']), relationship = EmptyObject\<rparr>,
                 \<lparr>entity = sampleBasicInfo (''e2'', Some (ascii ''eBook''), [ascii ''English'']), relationship = EmptyObject\<rparr>,
                 \<lparr>entity = sampleBasicInfo (''e3'', Some (ascii ''eBook''), [ascii ''French'']), relationship = EmptyObject\<rparr>]\<rparr>"
  let ?qe = "\<lparr>bbid = ''eg-1'', modelType = ''EditionGroup'', format = None, language = None\<rparr>"
  let ?qp = "\<lparr>bbid = ''p-1'', modelType = ''Publisher'', format = Some (ascii ''EBOOK''),
          language = None\<rparr>"
  let ?qw = "\<lparr>bbid = ''w-1'', modelType = ''Work'', format = None, language = None\<rparr>"
  let ?g4 = "[\<lparr>entity = sampleBasicInfo (''e4'', Some (ascii ''Paperback''), [ascii ''English'']),
               relationship = RelationshipEdge 4 ''Translation''\<rparr>]"
  have ge: "getBrowsedRelationships sampleOrm sampleLocals ''Edition'' sampleBasicInfo
              editionBasicRelations (relationshipsFilterMethod cm ?qe) = Inr ?g4"
    by (simp add: handler_simps)
  have fe: "EditionGroup_fetch sampleOrm (bbid ?qe) relationships
              = Inr (Some \<lparr>editions = Some [(''e1'', Some (ascii ''Hardcover''), [ascii ''English'']), (''e2'', Some (ascii ''eBook''), [ascii ''English'']), (''e3'', Some (ascii ''eBook''), [ascii ''French''])]\<rparr>)"
    by (simp add: sampleOrm_def)
  have ke: "filter_js (relationshipsFilterMethod cm ?qe) (map sampleBasicInfo [(''e1'', Some (ascii ''Hardcover''), [ascii ''English'']), (''e2'', Some (ascii ''eBook''), [ascii ''English'']), (''e3'', Some (ascii ''eBook''), [ascii ''French''])])
              = Inr (map sampleBasicInfo [(''e1'', Some (ascii ''Hardcover''), [ascii ''English'']), (''e2'', Some (ascii ''eBook''), [ascii ''English'']), (''e3'', Some (ascii ''eBook''), [ascii ''French''])])"
    by (simp add: relationshipsFilterMethod_no_criteria)
  have re: "router_get cm getBrowsedRelationships sampleBasicInfo sampleOrm sampleLocals ?qe =
      Inr \<lparr>status = 200, bbid_body = ''eg-1'',
              editions_body =
                [\<lparr>entity = sampleBasicInfo (''e4'', Some (ascii ''Paperback''), [ascii ''English'']),
                  relationship = RelationshipEdge 4 ''Translation''\<rparr>,
                 \<lparr>entity = sampleBasicInfo (''e1'', Some (ascii ''Hardcover''), [ascii ''English'']), relationship = EmptyObject\<rparr>,
                 \<lparr>entity = sampleBasicInfo (''e2'', Some (ascii ''eBook''), [ascii ''English'']), relationship = EmptyObject\<rparr>,
                 \<lparr>entity = sampleBasicInfo (''e3'', Some (ascii ''eBook''), [ascii ''French'']), relationship = EmptyObject\<rparr>]\<rparr>"
    using candidate_resolution_additive
      [of getBrowsedRelationships sampleOrm sampleLocals sampleBasicInfo cm ?qe undefined]
      ge fe ke
    by simp
  have gp: "getBrowsedRelationships sampleOrm sampleLocals ''Edition'' sampleBasicInfo
              editionBasicRelations (relationshipsFilterMethod cm ?qp) = Inr []"
    by (simp add: handler_simps)
  have fp: "Publisher_editions sampleOrm (bbid ?qp) editionBasicRelations = Inr [(''e2'', Some (ascii ''eBook''), [ascii ''English''])]"
    by (simp add: sampleOrm_def)
  have kp: "filter_js (relationshipsFilterMethod cm ?qp) (map sampleBasicInfo [(''e2'', Some (ascii ''eBook''), [ascii ''English''])])
              = Inr [sampleBasicInfo (''e2'', Some (ascii ''eBook''), [ascii ''English''])]"
    by (simp add: run_simps)
  have rp: "router_get cm getBrowsedRelationships sampleBasicInfo sampleOrm sampleLocals ?qp =
      Inr \<lparr>status = 200, bbid_body = ''p-1'',
              editions_body =
                [\<lparr>entity = sampleBasicInfo (''e2'', Some (ascii ''eBook''), [ascii ''English'']), relationship = EmptyObject\<rparr>]\<rparr>"
    using candidate_resolution_additive
      [of getBrowsedRelationships sampleOrm sampleLocals sampleBasicInfo cm ?qp undefined]
      gp fp kp
    by simp
  have gw: "getBrowsedRelationships sampleOrm sampleLocals ''Edition'' sampleBasicInfo
              editionBasicRelations (relationshipsFilterMethod cm ?qw) = Inr ?g4"
    by (simp add: handler_simps)
  have rw: "router_get cm getBrowsedRelationships sampleBasicInfo sampleOrm sampleLocals ?qw =
      Inr \<lparr>status = 200, bbid_body = ''w-1'', editions_body = ?g4\<rparr>"
    using candidate_resolution_additive
      [of getBrowsedRelationships sampleOrm sampleLocals sampleBasicInfo cm ?qw undefined]
      gw
    by simp
  have three: "length (specialCaseCandidates sampleOrm ?qe) = 3"
    by (simp add: handler_simps)
  from re have run: "router_get cm getBrowsedRelationships sampleBasicInfo sampleOrm
                       sampleLocals ?qe = Inr ?re"
    by simp
  from candidate_resolution_additive
      [of getBrowsedRelationships sampleOrm sampleLocals sampleBasicInfo cm ?qe ?re] run
  obtain generic where
    g: "getBrowsedRelationships sampleOrm sampleLocals ''Edition'' sampleBasicInfo
          editionBasicRelations (relationshipsFilterMethod cm ?qe) = Inr generic"
    and len: "\<not> truthy (format ?qe) \<and> \<not> truthy (language ?qe) \<longrightarrow>
        length (editions_body ?re) =
          length generic + length (specialCaseCandidates sampleOrm ?qe)"
    by blast
  from g ge have one: "length generic = 1" by auto
  from len have "length (editions_body ?re) =
          length generic + length (specialCaseCandidates sampleOrm ?qe)"
    by simp
  with one three have four: "length (editions_body ?re) = 4" by simp
  from re rp rw three four
  show "router_get cm getBrowsedRelationships sampleBasicInfo sampleOrm sampleLocals ?qe
       = Inr \<lparr>status = 200, bbid_body = ''eg-1'',
              editions_body =
                [\<lparr>entity = sampleBasicInfo (''e4'', Some (ascii ''Paperback''), [ascii ''English'']),
                  relationship = RelationshipEdge 4 ''Translation''\<rparr>,
                 \<lparr>entity = sampleBasicInfo (''e1'', Some (ascii ''Hardcover''), [ascii ''English'']), relationship = EmptyObject\<rparr>,
                 \<lparr>entity = sampleBasicInfo (''e2'', Some (ascii ''eBook''), [ascii ''English'']), relationship = EmptyObject\<rparr>,
                 \<lparr>entity = sampleBasicInfo (''e3'', Some (ascii ''eBook''), [ascii ''French'']), relationship = EmptyObject\<rparr>]\<rparr>
   \<and> router_get cm getBrowsedRelationships sampleBasicInfo sampleOrm sampleLocals ?qp
       = Inr \<lparr>status = 200, bbid_body = ''p-1'',
              editions_body =
                [\<lparr>entity = sampleBasicInfo (''e2'', Some (ascii ''eBook''), [ascii ''English'']), relationship = EmptyObject\<rparr>]\<rparr>
   \<and> router_get cm getBrowsedRelationships sampleBasicInfo sampleOrm sampleLocals ?qw
       = Inr \<lparr>status = 200, bbid_body = ''w-1'', editions_body = ?g4\<rparr>
   \<and> length (specialCaseCandidates sampleOrm ?qe) = 3
   \<and> length (editions_body ?re) = 4"
    by simp
qed

text \<open>
  Claim C4. In a response the records of the generic resolver come first, as the
  resolver returned them; after them come the special-case candidates that pass
  the filter, in the order of the storage call's result. Nothing is removed
  across the two sources: an entity occurs in the response as often as in the
  generic records plus, when it passes the filter, as often as among the
  special-case candidates.
\<close>

theorem records_in_resolver_order:
  assumes "router_get cm gbr getInfo db locals q = Inr res"
    and "gbr db locals ''Edition'' getInfo editionBasicRelations (relationshipsFilterMethod cm q)
           = Inr generic"
  shows
  "take (length generic) (editions_body res) = generic
   \<and> map entity (drop (length generic) (editions_body res)) =
       filter (\<lambda>e. relationshipsFilterMethod cm q e = Inr True)
         (map getInfo (specialCaseCandidates db q))
   \<and> (\<forall>x. count_list (map entity (editions_body res)) x =
          count_list (map entity generic) x +
          (if relationshipsFilterMethod cm q x = Inr True
           then count_list (map getInfo (specialCaseCandidates db q)) x else 0))
   \<and> (modelType q = ''EditionGroup'' \<longrightarrow>
        EditionGroup_fetch db (bbid q) relationships =
          Inr (Some \<lparr>editions = Some (specialCaseCandidates db q)\<rparr>))
   \<and> (modelType q = ''Publisher'' \<longrightarrow>
        Publisher_editions db (bbid q) editionBasicRelations =
          Inr (specialCaseCandidates db q))"
proof -
  note body = router_get_editions_body[of cm gbr getInfo db locals q res generic, OF assms]
  have first: "take (length generic) (editions_body res) = generic"
    unfolding body by simp
  have rest: "map entity (drop (length generic) (editions_body res)) =
       filter (\<lambda>e. relationshipsFilterMethod cm q e = Inr True)
         (map getInfo (specialCaseCandidates db q))"
    unfolding body by (simp add: comp_def)
  have count: "count_list (map entity (editions_body res)) x =
          count_list (map entity generic) x +
          (if relationshipsFilterMethod cm q x = Inr True
           then count_list (map getInfo (specialCaseCandidates db q)) x else 0)" for x
    unfolding body by (simp add: comp_def count_list_filter)
  from first rest count router_get_storage[OF assms(1)] show ?thesis by blast
qed

theorem records_in_resolver_order_witness:
  "\<forall>cm.
     router_get cm getBrowsedRelationships sampleBasicInfo sampleOrm sampleLocalsMember
        \<lparr>bbid = ''eg-1'', modelType = ''EditionGroup'', format = Some (ascii ''ebook''),
          language = Some (ascii ''english'')\<rparr>
       = Inr \<lparr>status = 200, bbid_body = ''eg-1'',
              editions_body =
                [\<lparr>entity = sampleBasicInfo (''e2'', Some (ascii ''eBook''), [ascii ''English'']),
                  relationship = RelationshipEdge 4 ''Translation''\<rparr>,
                 \<lparr>entity = sampleBasicInfo (''e2'', Some (ascii ''eBook''), [ascii ''English'']), relationship = EmptyObject\<rparr>]\<rparr>
   \<and> count_list (map entity (editions_body
          \<lparr>status = 200, bbid_body = ''eg-1'',
              editions_body =
                [\<lparr>entity = sampleBasicInfo (''e2'', Some (ascii ''eBook''), [ascii ''English'']),
                  relationship = RelationshipEdge 4 ''Translation''\<rparr>,
                 \<lparr>entity = sampleBasicInfo (''e2'', Some (ascii ''eBook''), [ascii ''English'']), relationship = EmptyObject\<rparr>]\<rparr>))
        (sampleBasicInfo (''e2'', Some (ascii ''eBook''), [ascii ''English''])) = 2"
proof
  fix cm
  let ?q = "\<lparr>bbid = ''eg-1'', modelType = ''EditionGroup'', format = Some (ascii ''ebook''),
        language = Some (ascii ''english'')\<rparr>"
  let ?e2 = "sampleBasicInfo (''e2'', Some (ascii ''eBook''), [ascii ''English''])"
  let ?gen = "[\<lparr>entity = ?e2, relationship = RelationshipEdge 4 ''Translation''\<rparr>]"
  let ?res = "\<lparr>status = 200, bbid_body = ''eg-1'',
            editions_body =
              [\<lparr>entity = ?e2, relationship = RelationshipEdge 4 ''Translation''\<rparr>,
               \<lparr>entity = ?e2, relationship = EmptyObject\<rparr>]\<rparr>"
  have run: "router_get cm getBrowsedRelationships sampleBasicInfo sampleOrm
               sampleLocalsMember ?q = Inr ?res"
    by (simp add: router_get_def editionGroupBlock_def handler_simps)
  have gen: "getBrowsedRelationships sampleOrm sampleLocalsMember ''Edition'' sampleBasicInfo
               editionBasicRelations (relationshipsFilterMethod cm ?q) = Inr ?gen"
    by (simp add: handler_simps)
  have pass: "relationshipsFilterMethod cm ?q ?e2 = Inr True"
    by (simp add: run_simps)
  have member:
    "count_list (map sampleBasicInfo (specialCaseCandidates sampleOrm ?q)) ?e2 = 1"
    by (simp add: handler_simps)
  have "count_list (map entity (editions_body ?res)) ?e2 =
          count_list (map entity ?gen) ?e2 +
          (if relationshipsFilterMethod cm ?q ?e2 = Inr True
           then count_list (map sampleBasicInfo (specialCaseCandidates sampleOrm ?q)) ?e2
           else 0)"
    using records_in_resolver_order
      [of cm getBrowsedRelationships sampleBasicInfo sampleOrm sampleLocalsMember ?q ?res ?gen,
       OF run gen]
    by blast
  then have "count_list (map entity (editions_body ?res)) ?e2 = 2"
    unfolding pass member by simp
  with run
  show "router_get cm getBrowsedRelationships sampleBasicInfo sampleOrm
               sampleLocalsMember ?q = Inr ?res
      \<and> count_list (map entity (editions_body ?res)) ?e2 = 2"
    by (rule conjI)
qed

text \<open>
  Claim C3, with the generic resolver as the specification describes it. Every
  record of a response pairs an entity with a relationship; the generic records
  and the special-case records are built the same way, by projecting a raw
  candidate with \<^verbatim>\<open>getEditionBasicInfo\<close> and keeping it when the predicate accepts
  the projection. A generic record carries its edge, a special-case record the
  empty object.
\<close>

theorem browse_records_uniform:
  assumes "router_get cm getBrowsedRelationships getInfo db locals q = Inr res"
  shows
  "editions_body res =
     map (\<lambda>row. \<lparr>entity = getInfo (otherEntity row), relationship = edge row\<rparr>)
       (filter (\<lambda>row. otherKind row = ''Edition''
                  \<and> relationshipsFilterMethod cm q (getInfo (otherEntity row)) = Inr True)
          locals)
     @ map (\<lambda>raw. \<lparr>entity = getInfo raw, relationship = EmptyObject\<rparr>)
         (filter (\<lambda>raw. relationshipsFilterMethod cm q (getInfo raw) = Inr True)
            (specialCaseCandidates db q))
   \<and> (\<forall>r \<in> set (editions_body res).
        (\<exists>raw. entity r = getInfo raw) \<and> relationshipsFilterMethod cm q (entity r) = Inr True)"
proof -
  from router_get_Inr[OF assms] obtain generic where
    g: "getBrowsedRelationships db locals ''Edition'' getInfo editionBasicRelations
          (relationshipsFilterMethod cm q) = Inr generic"
    by blast
  have gen: "generic =
     map (\<lambda>row. \<lparr>entity = getInfo (otherEntity row), relationship = edge row\<rparr>)
       (filter (\<lambda>row. otherKind row = ''Edition''
                  \<and> relationshipsFilterMethod cm q (getInfo (otherEntity row)) = Inr True)
          locals)"
    using g by (rule getBrowsedRelationships_Inr)
  have body: "editions_body res =
     map (\<lambda>row. \<lparr>entity = getInfo (otherEntity row), relationship = edge row\<rparr>)
       (filter (\<lambda>row. otherKind row = ''Edition''
                  \<and> relationshipsFilterMethod cm q (getInfo (otherEntity row)) = Inr True)
          locals)
     @ map (\<lambda>raw. \<lparr>entity = getInfo raw, relationship = EmptyObject\<rparr>)
         (filter (\<lambda>raw. relationshipsFilterMethod cm q (getInfo raw) = Inr True)
            (specialCaseCandidates db q))"
    using router_get_editions_body
      [of cm getBrowsedRelationships getInfo db locals q res generic, OF assms g] gen
    by (simp add: map_filter_projected)
  have all: "\<forall>r \<in> set (editions_body res).
        (\<exists>raw. entity r = getInfo raw) \<and> relationshipsFilterMethod cm q (entity r) = Inr True"
    unfolding body by auto
  from body all show ?thesis by (rule conjI)
qed

theorem browse_records_uniform_witness:
  "\<forall>cm.
     router_get cm getBrowsedRelationships sampleBasicInfo sampleOrm sampleLocalsMember
        \<lparr>bbid = ''p-1'', modelType = ''Publisher'', format = Some (ascii ''EBOOK''),
          language = None\<rparr>
       = Inr \<lparr>status = 200, bbid_body = ''p-1'',
              editions_body =
                [\<lparr>entity = sampleBasicInfo (''e2'', Some (ascii ''eBook''), [ascii ''English'']),
                  relationship = RelationshipEdge 4 ''Translation''\<rparr>,
                 \<lparr>entity = sampleBasicInfo (''e2'', Some (ascii ''eBook''), [ascii ''English'']), relationship = EmptyObject\<rparr>]\<rparr>
   \<and> relationshipsFilterMethod cm
        \<lparr>bbid = ''p-1'', modelType = ''Publisher'', format = Some (ascii ''EBOOK''),
          language = None\<rparr>
        (sampleBasicInfo (''e2'', Some (ascii ''eBook''), [ascii ''English''])) = Inr True"
proof
  fix cm
  let ?q = "\<lparr>bbid = ''p-1'', modelType = ''Publisher'', format = Some (ascii ''EBOOK''),
              language = None\<rparr>"
  let ?e2 = "sampleBasicInfo (''e2'', Some (ascii ''eBook''), [ascii ''English''])"
  let ?res = "\<lparr>status = 200, bbid_body = ''p-1'',
            editions_body =
              [\<lparr>entity = ?e2, relationship = RelationshipEdge 4 ''Translation''\<rparr>,
               \<lparr>entity = ?e2, relationship = EmptyObject\<rparr>]\<rparr>"
  have run: "router_get cm getBrowsedRelationships sampleBasicInfo sampleOrm
               sampleLocalsMember ?q = Inr ?res"
    by (simp add: router_get_def publisherBlock_def handler_simps)
  from browse_records_uniform[OF run]
  have "\<forall>r \<in> set (editions_body ?res).
        (\<exists>raw. entity r = sampleBasicInfo raw)
        \<and> relationshipsFilterMethod cm ?q (entity r) = Inr True"
    by (rule conjunct2)
  then have "relationshipsFilterMethod cm ?q ?e2 = Inr True"
    by simp
  with run
  show "router_get cm getBrowsedRelationships sampleBasicInfo sampleOrm
               sampleLocalsMember ?q = Inr ?res
      \<and> relationshipsFilterMethod cm ?q ?e2 = Inr True"
    by (rule conjI)
qed

text \<open>
  Claim C5. A response carries the \<^verbatim>\<open>bbid\<close> of the request and the status 200. When
  the generic resolver finds nothing and the special-case association of the
  anchor's kind is empty, the handler still returns, with that \<^verbatim>\<open>bbid\<close> and an
  empty list.
\<close>

theorem anchor_id_passthrough:
  "(router_get cm gbr getInfo db locals q = Inr res \<longrightarrow>
      bbid_body res = bbid q \<and> status res = 200)
   \<and> (gbr db locals ''Edition'' getInfo editionBasicRelations (relationshipsFilterMethod cm q)
         = Inr []
       \<and> (modelType q = ''EditionGroup'' \<longrightarrow>
            EditionGroup_fetch db (bbid q) relationships = Inr (Some \<lparr>editions = Some []\<rparr>))
       \<and> (modelType q = ''Publisher'' \<longrightarrow>
            Publisher_editions db (bbid q) editionBasicRelations = Inr [])
       \<longrightarrow> router_get cm gbr getInfo db locals q =
             Inr \<lparr>status = 200, bbid_body = bbid q, editions_body = []\<rparr>)"
proof (intro conjI impI)
  assume "router_get cm gbr getInfo db locals q = Inr res"
  then show "bbid_body res = bbid q" and "status res = 200"
    unfolding router_get_Inr_iff by auto
next
  assume a: "gbr db locals ''Edition'' getInfo editionBasicRelations (relationshipsFilterMethod cm q)
         = Inr []
       \<and> (modelType q = ''EditionGroup'' \<longrightarrow>
            EditionGroup_fetch db (bbid q) relationships = Inr (Some \<lparr>editions = Some []\<rparr>))
       \<and> (modelType q = ''Publisher'' \<longrightarrow>
            Publisher_editions db (bbid q) editionBasicRelations = Inr [])"
  then show "router_get cm gbr getInfo db locals q =
             Inr \<lparr>status = 200, bbid_body = bbid q, editions_body = []\<rparr>"
    unfolding router_get_Inr_iff editionGroupBlock_Inr_iff publisherBlock_Inr_iff
    by auto
qed

theorem anchor_id_passthrough_witness:
  "\<forall>cm.
     router_get cm getBrowsedRelationships sampleBasicInfo sampleOrm []
        \<lparr>bbid = ''p-2'', modelType = ''Publisher'', format = None, language = None\<rparr>
       = Inr \<lparr>status = 200, bbid_body = ''p-2'', editions_body = []\<rparr>
   \<and> bbid_body (\<lparr>status = 200, bbid_body = ''p-2'', editions_body = []\<rparr>
                   :: editionBasicInfo response) = ''p-2''"
proof
  fix cm
  let ?q = "\<lparr>bbid = ''p-2'', modelType = ''Publisher'', format = None, language = None\<rparr>"
  let ?res = "\<lparr>status = 200, bbid_body = ''p-2'', editions_body = []\<rparr>
                :: editionBasicInfo response"
  note inst = anchor_id_passthrough
      [of cm getBrowsedRelationships sampleBasicInfo sampleOrm "[]" ?q ?res]
  have g: "getBrowsedRelationships sampleOrm [] ''Edition'' sampleBasicInfo
             editionBasicRelations (relationshipsFilterMethod cm ?q) = Inr []"
    by (simp add: getBrowsedRelationships_def)
  have p: "Publisher_editions sampleOrm (bbid ?q) editionBasicRelations = Inr []"
    by (simp add: sampleOrm_def)
  have run: "router_get cm getBrowsedRelationships sampleBasicInfo sampleOrm [] ?q = Inr ?res"
    using inst g p by simp
  have "bbid_body ?res = bbid ?q"
    using inst run by simp
  with run
  show "router_get cm getBrowsedRelationships sampleBasicInfo sampleOrm [] ?q = Inr ?res
      \<and> bbid_body ?res = ''p-2''"
    by simp
qed

text \<open>
  Claim C9. For an EditionGroup anchor, once the generic resolver has returned,
  a fetch that resolves to no row makes the handler raise a \<^verbatim>\<open>TypeError\<close>:
  \<^verbatim>\<open>editions\<close> is taken from \<^verbatim>\<open>{}\<close> and \<^verbatim>\<open>map\<close> is called on \<^verbatim>\<open>undefined\<close>. No
  response is sent.
\<close>

theorem editionGroup_without_row_raises:
  assumes "modelType q = ''EditionGroup''"
    and "gbr db locals ''Edition'' getInfo editionBasicRelations (relationshipsFilterMethod cm q)
           = Inr generic"
    and "EditionGroup_fetch db (bbid q) relationships = Inr None"
  shows "router_get cm gbr getInfo db locals q = Inl TypeError"
  using assms by (simp add: router_get_def editionGroupBlock_def)

theorem editionGroup_without_row_raises_witness:
  "\<forall>cm.
     router_get cm getBrowsedRelationships sampleBasicInfo sampleOrm sampleLocals
        \<lparr>bbid = ''eg-2'', modelType = ''EditionGroup'', format = None, language = None\<rparr>
       = Inl TypeError"
proof
  fix cm
  let ?q = "\<lparr>bbid = ''eg-2'', modelType = ''EditionGroup'', format = None, language = None\<rparr>"
  have g: "getBrowsedRelationships sampleOrm sampleLocals ''Edition'' sampleBasicInfo
             editionBasicRelations (relationshipsFilterMethod cm ?q)
           = Inr [\<lparr>entity = sampleBasicInfo (''e4'', Some (ascii ''Paperback''), [ascii ''English'']),
                   relationship = RelationshipEdge 4 ''Translation''\<rparr>]"
    by (simp add: handler_simps)
  have f: "EditionGroup_fetch sampleOrm (bbid ?q) relationships = Inr None"
    by (simp add: sampleOrm_def)
  show "router_get cm getBrowsedRelationships sampleBasicInfo sampleOrm sampleLocals ?q
          = Inl TypeError"
    using editionGroup_without_row_raises
      [of ?q getBrowsedRelationships sampleOrm sampleLocals sampleBasicInfo cm _, OF _ g f]
    by simp
qed

end
